theory Spec2Isabelle
  imports Complex_Main "HOL-Library.Word" "HOL-Library.AList"
begin

section \<open>Strings, bytes and paths\<close>

text \<open>
  The service is one Flask module, \<^verbatim>\<open>app.py\<close>. Its functions are embedded below as
  HOL functions over an explicit world (file store, session, flashed messages); the
  calls into the face-recognition library, the base64 decoder, the random source and
  the clock are parameters of the model.

  Python strings are modelled as \<^typ>\<open>string\<close>; the characters are read as ASCII code
  points. \<^verbatim>\<open>str.lower\<close> and \<^verbatim>\<open>str.strip\<close> are modelled on ASCII: characters outside
  ASCII are left as they are and are not white space.
\<close>

type_synonym byte = "8 word"
type_synonym bytes = "byte list"
type_synonym path = string

definition lower_char :: "char \<Rightarrow> char" where
  "lower_char c =
     (case map_of (zip ''ABCDEFGHIJKLMNOPQRSTUVWXYZ'' ''abcdefghijklmnopqrstuvwxyz'') c of
        Some l \<Rightarrow> l
      | None \<Rightarrow> c)"

definition str_lower :: "string \<Rightarrow> string" where
  "str_lower s = map lower_char s"

text \<open>The ASCII characters for which \<^verbatim>\<open>str.isspace\<close> holds: tab, line feed, vertical tab,
  form feed, carriage return, the four separators 0x1c..0x1f, and space.\<close>

definition is_space :: "char \<Rightarrow> bool" where
  "is_space c \<longleftrightarrow>
     c \<in> set [CHR 0x09, CHR 0x0A, CHR 0x0B, CHR 0x0C, CHR 0x0D,
              CHR 0x1C, CHR 0x1D, CHR 0x1E, CHR 0x1F, CHR 0x20]"

definition str_strip :: "string \<Rightarrow> string" where
  "str_strip s = rev (dropWhile is_space (rev (dropWhile is_space s)))"

text \<open>\<^verbatim>\<open>s.replace(old, new)\<close> for a pattern \<^verbatim>\<open>old\<close> of one character, the only use the
  program makes of it.\<close>

definition str_replace :: "char \<Rightarrow> string \<Rightarrow> string \<Rightarrow> string" where
  "str_replace old new s = concat (map (\<lambda>c. if c = old then new else [c]) s)"

definition startswith :: "string \<Rightarrow> string \<Rightarrow> bool" where
  "startswith pre s \<longleftrightarrow> take (length pre) s = pre"

text \<open>\<^verbatim>\<open>s.split(sep, 1)\<close> unpacked into two names: \<^verbatim>\<open>ValueError\<close> (here \<open>None\<close>) when
  the separator does not occur.\<close>

definition split_once :: "char \<Rightarrow> string \<Rightarrow> (string \<times> string) option" where
  "split_once sep s =
     (if sep \<in> set s
      then Some (takeWhile (\<lambda>c. c \<noteq> sep) s, tl (dropWhile (\<lambda>c. c \<noteq> sep) s))
      else None)"

text \<open>\<^verbatim>\<open>bytes.hex()\<close>: two lower-case hexadecimal digits per byte.\<close>

definition hex_digit :: "nat \<Rightarrow> char" where
  "hex_digit n = ''0123456789abcdef'' ! n"

definition hex_byte :: "byte \<Rightarrow> string" where
  "hex_byte b = [hex_digit (unat b div 16), hex_digit (unat b mod 16)]"

definition bytes_hex :: "bytes \<Rightarrow> string" where
  "bytes_hex bs = concat (map hex_byte bs)"

text \<open>\<^verbatim>\<open>os.path.join(a, b)\<close> of \<^verbatim>\<open>posixpath\<close>: an absolute second component replaces the
  first.\<close>

definition os_path_join :: "path \<Rightarrow> path \<Rightarrow> path" where
  "os_path_join a b =
     (if startswith ''/'' b then b
      else if a = [] \<or> last a = CHR ''/'' then a @ b
      else a @ ''/'' @ b)"

definition STUDENTS_DIR :: path where
  "STUDENTS_DIR = ''students''"

definition MAX_FILE_AGE_DAYS :: real where
  "MAX_FILE_AGE_DAYS = 30"

definition sanitize_email :: "string \<Rightarrow> string" where
  "sanitize_email email =
     str_replace CHR ''.'' ''_'' (str_replace CHR ''@'' ''_at_'' (str_lower (str_strip email)))"

section \<open>The world of a request\<close>

text \<open>
  Exceptions are values. The parameters of the model return \<open>Inl e\<close> where the library
  call raises \<open>e\<close>, and a function of the program returns \<open>Inl e\<close> with the world it
  leaves behind where the exception \<open>e\<close> leaves it.
\<close>

datatype exn =
    ValueError string
  | FileNotFoundError path
  | PermissionError path
  | LibraryError string

record stored_file =
  contents :: bytes
  mtime :: real

text \<open>The dictionary returned by \<^verbatim>\<open>DeepFace.verify\<close>; \<open>None\<close> is a missing key. Distances
  and times are Python floats, idealised as reals.\<close>

record verify_result =
  res_verified :: "bool option"
  res_distance :: "real option"

datatype pyval = PyBool bool | PyStr string

datatype endpoint = Home | Dashboard

datatype response =
    Redirect endpoint
  | RenderIndex
  | RenderDashboard "pyval option"
  | JsonRegistered bool
  | JsonError string nat

datatype category = CatError | CatInfo | CatSuccess

text \<open>
  The flashed messages, one constructor per \<^verbatim>\<open>flash\<close> call of the source; a formatted
  value is the constructor's argument (\<open>FaceNotRecognized\<close> carries the similarity that
  the source prints with one decimal).
\<close>

datatype message =
    MissingFields
  | CouldNotDecode exn
  | NoFaceOrMultiple
  | AlreadyRegistered
  | RegistrationSuccessful
  | NoRegisteredFace
  | WelcomeBack string
  | FaceNotRecognized real
  | AuthenticationError exn
  | NeedLogin
  | LoggedOut

datatype log_entry =
    FaceDetectionError exn
  | CleanupRemoved string
  | CleanupError exn
  | AuthError exn

text \<open>The effects of a request in the order they happen: calls that change the file
  store or the session, and calls into the libraries.\<close>

datatype event =
    EvOpen path
  | EvDecode
  | EvWrite path
  | EvExtractFaces path
  | EvVerify path path
  | EvReplace path path
  | EvRemove path
  | EvSession string

text \<open>
  The environment: \<^verbatim>\<open>base64.b64decode\<close>, \<^verbatim>\<open>DeepFace.extract_faces\<close> (the number of faces
  it returns for an image), \<^verbatim>\<open>DeepFace.verify\<close> (on the two images), \<^verbatim>\<open>os.urandom\<close>,
  \<^verbatim>\<open>time.time\<close>, and the paths on which \<^verbatim>\<open>os.remove\<close> is refused by the operating system.
\<close>

record env =
  b64decode :: "string \<Rightarrow> exn + bytes"
  extract_faces :: "bytes \<Rightarrow> exn + nat"
  verify :: "bytes \<Rightarrow> bytes \<Rightarrow> exn + verify_result"
  urandom :: "nat \<Rightarrow> bytes"
  time_now :: real
  remove_denied :: "path \<Rightarrow> bool"

text \<open>
  The world: the files by path (an association list, so that a directory can be
  listed), the session dictionary (\<^verbatim>\<open>session.permanent\<close> is its key \<^verbatim>\<open>_permanent\<close>), the
  pending flashed messages, the log and the trace of effects. Flask keeps the flashed
  messages in the session, under a key of its own; here they are a field of their own,
  and \<open>session\<close> is the rest of the dictionary.
\<close>

record world =
  files :: "(path \<times> stored_file) list"
  session :: "string \<rightharpoonup> pyval"
  flashes :: "(message \<times> category) list"
  logs :: "log_entry list"
  trace :: "event list"

record request =
  form_mode :: "string option"
  form_email :: "string option"
  form_image_data :: "string option"

type_synonym 'a outcome = "(exn + 'a) \<times> world"

definition file_at :: "world \<Rightarrow> path \<Rightarrow> stored_file option" where
  "file_at w p = map_of (files w) p"

definition flash :: "message \<Rightarrow> category \<Rightarrow> world \<Rightarrow> world" where
  "flash msg cat w = w\<lparr>flashes := flashes w @ [(msg, cat)]\<rparr>"

definition logger :: "log_entry \<Rightarrow> world \<Rightarrow> world" where
  "logger l w = w\<lparr>logs := logs w @ [l]\<rparr>"

definition emit :: "event \<Rightarrow> world \<Rightarrow> world" where
  "emit ev w = w\<lparr>trace := trace w @ [ev]\<rparr>"

definition session_set :: "string \<Rightarrow> pyval \<Rightarrow> world \<Rightarrow> world" where
  "session_set k v w = emit (EvSession k) (w\<lparr>session := (session w)(k \<mapsto> v)\<rparr>)"

text \<open>Python truthiness of \<^verbatim>\<open>session.get(k)\<close> and of \<^verbatim>\<open>result.get(k)\<close>.\<close>

fun truthy :: "pyval option \<Rightarrow> bool" where
  "truthy None = False"
| "truthy (Some (PyBool b)) = b"
| "truthy (Some (PyStr s)) = (s \<noteq> [])"

fun py_bool :: "bool option \<Rightarrow> bool" where
  "py_bool None = False"
| "py_bool (Some b) = b"

subsection \<open>The file store\<close>

text \<open>
  \<open>directly_in d p\<close>: the path \<open>p\<close> names an entry of the directory \<open>d\<close> itself.
  The store is flat: \<^verbatim>\<open>os.makedirs(STUDENTS_DIR)\<close> creates the one directory the program
  writes to, and nothing creates a directory below it. Creating a file at a path that is
  not directly in \<open>STUDENTS_DIR\<close> therefore raises \<^verbatim>\<open>FileNotFoundError\<close>.
\<close>

definition directly_in :: "path \<Rightarrow> path \<Rightarrow> bool" where
  "directly_in d p \<longleftrightarrow>
     take (length d + 1) p = d @ ''/'' \<and>
     drop (length d + 1) p \<noteq> [] \<and>
     CHR ''/'' \<notin> set (drop (length d + 1) p)"

definition os_path_exists :: "path \<Rightarrow> world \<Rightarrow> bool" where
  "os_path_exists p w \<longleftrightarrow> file_at w p \<noteq> None"

definition os_path_getmtime :: "path \<Rightarrow> world \<Rightarrow> exn + real" where
  "os_path_getmtime p w =
     (case file_at w p of None \<Rightarrow> Inl (FileNotFoundError p) | Some f \<Rightarrow> Inr (mtime f))"

definition os_listdir :: "path \<Rightarrow> world \<Rightarrow> string list" where
  "os_listdir d w =
     remdups (map (drop (length d + 1)) (filter (directly_in d) (map fst (files w))))"

text \<open>\<^verbatim>\<open>open(path, "wb")\<close> creates the file, or truncates it.\<close>

definition open_wb :: "env \<Rightarrow> path \<Rightarrow> world \<Rightarrow> unit outcome" where
  "open_wb env p w =
     (if directly_in STUDENTS_DIR p
      then (Inr (), emit (EvOpen p)
              (w\<lparr>files := AList.update p \<lparr>contents = [], mtime = time_now env\<rparr> (files w)\<rparr>))
      else (Inl (FileNotFoundError p), emit (EvOpen p) w))"

definition file_write :: "env \<Rightarrow> path \<Rightarrow> bytes \<Rightarrow> world \<Rightarrow> world" where
  "file_write env p bs w =
     emit (EvWrite p)
       (w\<lparr>files := AList.update p \<lparr>contents = bs, mtime = time_now env\<rparr> (files w)\<rparr>)"

text \<open>\<^verbatim>\<open>os.replace(src, dst)\<close> moves the file, with its modification time, over \<open>dst\<close>.\<close>

definition os_replace :: "path \<Rightarrow> path \<Rightarrow> world \<Rightarrow> unit outcome" where
  "os_replace src dst w =
     (case file_at w src of
        None \<Rightarrow> (Inl (FileNotFoundError src), emit (EvReplace src dst) w)
      | Some f \<Rightarrow>
          if directly_in STUDENTS_DIR dst
          then (Inr (), emit (EvReplace src dst)
                  (w\<lparr>files := AList.update dst f (AList.delete src (files w))\<rparr>))
          else (Inl (FileNotFoundError dst), emit (EvReplace src dst) w))"

definition os_remove :: "env \<Rightarrow> path \<Rightarrow> world \<Rightarrow> unit outcome" where
  "os_remove env p w =
     (if \<not> os_path_exists p w then (Inl (FileNotFoundError p), emit (EvRemove p) w)
      else if remove_denied env p then (Inl (PermissionError p), emit (EvRemove p) w)
      else (Inr (), emit (EvRemove p) (w\<lparr>files := AList.delete p (files w)\<rparr>)))"

section \<open>The functions of \<^verbatim>\<open>app.py\<close>\<close>

definition MODEL_NAME :: string where
  "MODEL_NAME = ''Facenet512''"

definition DETECTOR :: string where
  "DETECTOR = ''opencv''"

text \<open>The file is opened before the payload is decoded: when \<^verbatim>\<open>b64decode\<close> raises, the
  empty file stays.\<close>

definition save_base64_image :: "env \<Rightarrow> string \<Rightarrow> path \<Rightarrow> world \<Rightarrow> unit outcome" where
  "save_base64_image env image_data_b64 p w =
     (case split_once CHR '','' image_data_b64 of
        None \<Rightarrow> (Inl (ValueError ''Invalid image data format''), w)
      | Some (header, encoded) \<Rightarrow>
          (case open_wb env p w of
             (Inl e, w1) \<Rightarrow> (Inl e, w1)
           | (Inr u, w1) \<Rightarrow>
               (case b64decode env encoded of
                  Inl e \<Rightarrow> (Inl e, emit EvDecode w1)
                | Inr bs \<Rightarrow> (Inr (), file_write env p bs (emit EvDecode w1)))))"

text \<open>The two library calls read their images from the store; a path with no file
  makes them raise.\<close>

definition deepface_extract_faces :: "env \<Rightarrow> path \<Rightarrow> world \<Rightarrow> nat outcome" where
  "deepface_extract_faces env img_path w =
     ((case file_at w img_path of
         None \<Rightarrow> Inl (ValueError img_path)
       | Some f \<Rightarrow> extract_faces env (contents f)),
      emit (EvExtractFaces img_path) w)"

definition deepface_verify :: "env \<Rightarrow> path \<Rightarrow> path \<Rightarrow> world \<Rightarrow> verify_result outcome" where
  "deepface_verify env img1_path img2_path w =
     ((case file_at w img1_path of
         None \<Rightarrow> Inl (ValueError img1_path)
       | Some f1 \<Rightarrow>
           (case file_at w img2_path of
              None \<Rightarrow> Inl (ValueError img2_path)
            | Some f2 \<Rightarrow> verify env (contents f1) (contents f2))),
      emit (EvVerify img1_path img2_path) w)"

definition single_face_present :: "env \<Rightarrow> path \<Rightarrow> world \<Rightarrow> bool \<times> world" where
  "single_face_present env img_path w =
     (case deepface_extract_faces env img_path w of
        (Inr faces, w1) \<Rightarrow> (faces = 1, w1)
      | (Inl e, w1) \<Rightarrow> (False, logger (FaceDetectionError e) w1))"

text \<open>The loop of \<open>cleanup_old_files\<close> over the directory listing; an exception leaves
  the loop.\<close>

fun cleanup_loop :: "env \<Rightarrow> real \<Rightarrow> string list \<Rightarrow> world \<Rightarrow> unit outcome" where
  "cleanup_loop env now [] w = (Inr (), w)"
| "cleanup_loop env now (filename # rest) w =
     (if startswith ''temp_'' filename then
        (let filepath = os_path_join STUDENTS_DIR filename in
         case os_path_getmtime filepath w of
           Inl e \<Rightarrow> (Inl e, w)
         | Inr t \<Rightarrow>
             if t < now - MAX_FILE_AGE_DAYS * 86400 then
               (case os_remove env filepath w of
                  (Inl e, w1) \<Rightarrow> (Inl e, w1)
                | (Inr u, w1) \<Rightarrow> cleanup_loop env now rest (logger (CleanupRemoved filename) w1))
             else cleanup_loop env now rest w)
      else cleanup_loop env now rest w)"

definition cleanup_old_files :: "env \<Rightarrow> world \<Rightarrow> world" where
  "cleanup_old_files env w =
     (let now = time_now env in
      case cleanup_loop env now (os_listdir STUDENTS_DIR w) w of
        (Inr u, w1) \<Rightarrow> w1
      | (Inl e, w1) \<Rightarrow> logger (CleanupError e) w1)"

definition home :: "env \<Rightarrow> world \<Rightarrow> response \<times> world" where
  "home env w = (RenderIndex, cleanup_old_files env w)"

definition req_email :: "request \<Rightarrow> string" where
  "req_email req = str_lower (str_strip (case form_email req of None \<Rightarrow> [] | Some e \<Rightarrow> e))"

definition req_image_data :: "request \<Rightarrow> string" where
  "req_image_data req = (case form_image_data req of None \<Rightarrow> [] | Some d \<Rightarrow> d)"

definition registered_path :: "string \<Rightarrow> path" where
  "registered_path fname = os_path_join STUDENTS_DIR (fname @ ''.jpg'')"

definition temp_path :: "env \<Rightarrow> string \<Rightarrow> path" where
  "temp_path env fname =
     os_path_join STUDENTS_DIR (''temp_'' @ fname @ ''_'' @ bytes_hex (urandom env 4) @ ''.jpg'')"

text \<open>The body of the second \<^verbatim>\<open>try\<close> of \<open>submit\<close>; \<open>Inl e\<close> is an exception that leaves it.\<close>

definition submit_try ::
  "env \<Rightarrow> string option \<Rightarrow> string \<Rightarrow> path \<Rightarrow> path \<Rightarrow> world \<Rightarrow> response outcome" where
  "submit_try env mode email tmp reg w =
     (let (one_face, w1) = single_face_present env tmp w in
      if \<not> one_face then (Inr (Redirect Home), flash NoFaceOrMultiple CatError w1)
      else if mode = Some ''register'' then
        (if os_path_exists reg w1 then (Inr (Redirect Home), flash AlreadyRegistered CatInfo w1)
         else
           (case os_replace tmp reg w1 of
              (Inl e, w2) \<Rightarrow> (Inl e, w2)
            | (Inr u, w2) \<Rightarrow>
                (Inr (Redirect Dashboard),
                 session_set ''logged_in'' (PyBool True)
                   (session_set ''email'' (PyStr email)
                     (session_set ''_permanent'' (PyBool True)
                       (flash RegistrationSuccessful CatSuccess w2))))))
      else if \<not> os_path_exists reg w1 then
        (Inr (Redirect Home), flash NoRegisteredFace CatError w1)
      else
        (case deepface_verify env tmp reg w1 of
           (Inl e, w2) \<Rightarrow> (Inl e, w2)
         | (Inr result, w2) \<Rightarrow>
             if py_bool (res_verified result) then
               (Inr (Redirect Dashboard),
                session_set ''logged_in'' (PyBool True)
                  (session_set ''email'' (PyStr email)
                    (session_set ''_permanent'' (PyBool True)
                      (flash (WelcomeBack email) CatSuccess w2))))
             else
               (let dist = (case res_distance result of None \<Rightarrow> 1 | Some d \<Rightarrow> d);
                    similarity = max 0 ((1 - dist) * 100)
                in (Inr (Redirect Home), flash (FaceNotRecognized similarity) CatError w2))))"

text \<open>The \<^verbatim>\<open>except Exception\<close> clause and the \<^verbatim>\<open>finally\<close> clause of that \<^verbatim>\<open>try\<close>.\<close>

definition submit_except :: "response outcome \<Rightarrow> response outcome" where
  "submit_except out =
     (case out of
        (Inl e, w) \<Rightarrow>
          (Inr (Redirect Home), flash (AuthenticationError e) CatError (logger (AuthError e) w))
      | (Inr r, w) \<Rightarrow> (Inr r, w))"

definition submit_finally :: "env \<Rightarrow> path \<Rightarrow> response outcome \<Rightarrow> response outcome" where
  "submit_finally env tmp out =
     (case out of
        (res, w) \<Rightarrow>
          if os_path_exists tmp w then (res, snd (os_remove env tmp w)) else (res, w))"

definition submit :: "env \<Rightarrow> request \<Rightarrow> world \<Rightarrow> response outcome" where
  "submit env req w =
     (let mode = form_mode req;
          email = req_email req;
          image_data = req_image_data req
      in
      if email = [] \<or> (mode \<noteq> Some ''login'' \<and> mode \<noteq> Some ''register'') \<or> image_data = []
      then
        (Inr (Redirect Home), flash MissingFields CatError w)
      else
        (let fname = sanitize_email email;
             reg = registered_path fname;
             tmp = temp_path env fname
         in
         case save_base64_image env image_data tmp w of
           (Inl e, w1) \<Rightarrow> (Inr (Redirect Home), flash (CouldNotDecode e) CatError w1)
         | (Inr u, w1) \<Rightarrow>
             submit_finally env tmp (submit_except (submit_try env mode email tmp reg w1))))"

definition dashboard :: "world \<Rightarrow> response \<times> world" where
  "dashboard w =
     (if \<not> truthy (session w ''logged_in'') then (Redirect Home, flash NeedLogin CatError w)
      else (RenderDashboard (session w ''email''), w))"

text \<open>Flask keeps the pending flashed messages in the session, so \<^verbatim>\<open>session.clear()\<close>
  drops them as well.\<close>

definition logout :: "world \<Rightarrow> response \<times> world" where
  "logout w = (Redirect Home, flash LoggedOut CatInfo (w\<lparr>session := Map.empty, flashes := []\<rparr>))"

definition check_email :: "request \<Rightarrow> world \<Rightarrow> response" where
  "check_email req w =
     (let email = req_email req in
      if email = [] then JsonError ''Email required'' 400
      else
        (let fname = sanitize_email email;
             reg = registered_path fname
         in JsonRegistered (os_path_exists reg w)))"

section \<open>Orders of effects\<close>

text \<open>
  The specification lists the steps of a request as: decode the image, write it to disk,
  call the face library, compare the result, update a file-system path, set the session
  flag. \<open>session_set_last\<close> says of a trace what the last two steps say: once a session
  key has been set, no file is moved or removed any more.
\<close>

fun is_path_update :: "event \<Rightarrow> bool" where
  "is_path_update (EvReplace src dst) = True"
| "is_path_update (EvRemove p) = True"
| "is_path_update ev = False"

fun is_session_event :: "event \<Rightarrow> bool" where
  "is_session_event (EvSession k) = True"
| "is_session_event ev = False"

fun session_set_last :: "event list \<Rightarrow> bool" where
  "session_set_last [] = True"
| "session_set_last (ev # evs) =
     ((if is_session_event ev then list_all (\<lambda>x. \<not> is_path_update x) evs else True) \<and>
      session_set_last evs)"

section \<open>Sample requests\<close>

text \<open>A library that decodes one payload, sees one face in every non-empty image and
  verifies two images when they are equal.\<close>

definition demo_env :: env where
  "demo_env =
     \<lparr>b64decode = (\<lambda>s. if s = ''QUJD'' then Inr [65, 66, 67]
                        else if s = ''QUJE'' then Inr [65, 66, 68]
                        else Inl (ValueError ''Incorrect padding'')),
      extract_faces = (\<lambda>bs. if bs = [] then Inl (ValueError ''Face could not be detected'')
                            else Inr 1),
      verify = (\<lambda>a b. Inr \<lparr>res_verified = Some (a = b),
                             res_distance = Some (if a = b then 0 else 0.4)\<rparr>),
      urandom = (\<lambda>n. [171, 205, 1, 239]),
      time_now = 1000,
      remove_denied = (\<lambda>p. False)\<rparr>"

definition failing_detector_env :: env where
  "failing_detector_env =
     demo_env\<lparr>extract_faces := (\<lambda>bs. Inl (LibraryError ''detector backend failed''))\<rparr>"

definition failing_verify_env :: env where
  "failing_verify_env =
     demo_env\<lparr>verify := (\<lambda>a b. Inl (LibraryError ''model could not be loaded''))\<rparr>"

definition month_later_env :: env where
  "month_later_env = demo_env\<lparr>time_now := 1000 + 30 * 86400 + 1\<rparr>"

definition empty_world :: world where
  "empty_world = \<lparr>files = [], session = Map.empty, flashes = [], logs = [], trace = []\<rparr>"

definition enrolled_world :: world where
  "enrolled_world =
     empty_world\<lparr>files := [(''students/a_at_b_c.jpg'', \<lparr>contents = [65, 66, 67], mtime = 0\<rparr>)]\<rparr>"

definition outside_world :: world where
  "outside_world =
     empty_world\<lparr>files := [(''/x.jpg'', \<lparr>contents = [1, 2, 3], mtime = 0\<rparr>)]\<rparr>"

definition logged_in_world :: world where
  "logged_in_world =
     empty_world\<lparr>session := [''logged_in'' \<mapsto> PyBool True, ''email'' \<mapsto> PyStr ''a@b.c'']\<rparr>"

definition register_req :: request where
  "register_req =
     \<lparr>form_mode = Some ''register'', form_email = Some '' A@b.C '',
      form_image_data = Some ''data:image/jpeg;base64,QUJD''\<rparr>"

definition login_req :: request where
  "login_req =
     \<lparr>form_mode = Some ''login'', form_email = Some ''a@b.c'',
      form_image_data = Some ''data:image/jpeg;base64,QUJD''\<rparr>"

definition stranger_login_req :: request where
  "stranger_login_req =
     \<lparr>form_mode = Some ''login'', form_email = Some ''a@b.c'',
      form_image_data = Some ''data:image/jpeg;base64,QUJE''\<rparr>"

definition temp_bob_req :: request where
  "temp_bob_req =
     \<lparr>form_mode = Some ''register'', form_email = Some ''temp_bob@x.org'',
      form_image_data = Some ''data:image/jpeg;base64,QUJD''\<rparr>"

definition alias_login_req :: request where
  "alias_login_req =
     \<lparr>form_mode = Some ''login'', form_email = Some ''a_at_b_c'',
      form_image_data = Some ''data:image/jpeg;base64,QUJD''\<rparr>"

definition slash_req :: request where
  "slash_req = \<lparr>form_mode = None, form_email = Some ''/x'', form_image_data = None\<rparr>"

section \<open>Evaluation\<close>

lemmas string_defs =
  sanitize_email_def str_replace_def str_lower_def str_strip_def is_space_def lower_char_def
  bytes_hex_def hex_byte_def hex_digit_def os_path_join_def startswith_def STUDENTS_DIR_def
  split_once_def directly_in_def registered_path_def temp_path_def req_email_def
  req_image_data_def

lemmas world_defs =
  file_at_def flash_def logger_def emit_def session_set_def os_path_exists_def
  os_path_getmtime_def os_listdir_def open_wb_def file_write_def os_replace_def os_remove_def

lemmas app_defs =
  save_base64_image_def deepface_extract_faces_def deepface_verify_def single_face_present_def
  cleanup_old_files_def home_def submit_try_def submit_except_def submit_finally_def submit_def
  dashboard_def logout_def check_email_def MAX_FILE_AGE_DAYS_def Let_def

lemmas demo_defs =
  demo_env_def failing_detector_env_def failing_verify_env_def month_later_env_def
  empty_world_def enrolled_world_def outside_world_def logged_in_world_def
  register_req_def login_req_def stranger_login_req_def temp_bob_req_def alias_login_req_def
  slash_req_def

section \<open>Strings and paths\<close>

lemma lower_char_idem: "lower_char (lower_char c) = lower_char c"
  by (simp add: lower_char_def)

lemma is_space_lower_char: "is_space (lower_char c) = is_space c"
  by (simp add: lower_char_def is_space_def)

lemma str_lower_idem: "str_lower (str_lower s) = str_lower s"
  by (simp add: str_lower_def lower_char_idem)

lemma dropWhile_space_lower:
  "dropWhile is_space (str_lower s) = str_lower (dropWhile is_space s)"
  by (induction s) (simp_all add: str_lower_def is_space_lower_char)

lemma str_lower_rev: "str_lower (rev s) = rev (str_lower s)"
  by (simp add: str_lower_def rev_map)

lemma str_strip_lower: "str_strip (str_lower s) = str_lower (str_strip s)"
  by (simp add: str_strip_def dropWhile_space_lower str_lower_rev [symmetric])

lemma str_strip_idem: "str_strip (str_strip s) = str_strip s"
proof -
  define t where "t = dropWhile is_space s"
  define u where "u = rev (dropWhile is_space (rev t))"
  have t_split: "t = u @ rev (takeWhile is_space (rev t))"
    unfolding u_def by (metis rev_append rev_rev_ident takeWhile_dropWhile_id)
  have fixed: "dropWhile is_space u = u"
  proof (cases u)
    case Nil
    then show ?thesis by simp
  next
    case (Cons a as)
    with t_split obtain r where t: "t = a # r"
      by simp
    then have "dropWhile is_space s \<noteq> []"
      by (simp add: t_def)
    then have "\<not> is_space (hd (dropWhile is_space s))"
      by (rule hd_dropWhile)
    with t have "\<not> is_space a"
      by (simp add: t_def)
    with Cons show ?thesis
      by simp
  qed
  have "str_strip s = u"
    by (simp add: str_strip_def t_def u_def)
  moreover have "str_strip u = u"
    by (simp add: str_strip_def fixed) (simp add: u_def)
  ultimately show ?thesis
    by simp
qed

text \<open>\<open>submit\<close> and \<open>check_email\<close> strip and lower-case the address before they
  sanitize it; \<open>sanitize_email\<close> does both again, to no effect.\<close>

lemma sanitize_email_req_email:
  "form_email req = Some raw \<Longrightarrow> sanitize_email (req_email req) = sanitize_email raw"
  by (simp add: sanitize_email_def req_email_def str_strip_lower str_strip_idem str_lower_idem)

lemma temp_path_eq:
  "temp_path env fname =
     ''students/temp_'' @ fname @ ''_'' @ bytes_hex (urandom env 4) @ ''.jpg''"
  by (simp add: temp_path_def os_path_join_def startswith_def STUDENTS_DIR_def)

lemma temp_path_neq_registered: "temp_path env fname \<noteq> registered_path fname"
proof
  assume eq: "temp_path env fname = registered_path fname"
  have "length (registered_path fname) \<le> length fname + 13"
    by (simp add: registered_path_def os_path_join_def startswith_def STUDENTS_DIR_def)
  moreover have "length fname + 19 \<le> length (temp_path env fname)"
    by (simp add: temp_path_eq)
  ultimately show False
    using eq by simp
qed





section \<open>Two addresses, one reference file\<close>

text \<open>
  C9. \<open>sanitize_email\<close> is not injective: the distinct addresses \<^verbatim>\<open>a@b.c\<close> and \<^verbatim>\<open>a_at_b_c\<close>
  have the same sanitized name, hence the same reference path and the same answer of
  \<open>check_email\<close> in every world; after \<^verbatim>\<open>A@b.C\<close> has enrolled, a login as \<^verbatim>\<open>a_at_b_c\<close>
  is verified against that reference and succeeds.
\<close>

theorem sanitize_email_not_injective:
  "''a@b.c'' \<noteq> ''a_at_b_c'' \<and>
   sanitize_email ''a@b.c'' = sanitize_email ''a_at_b_c'' \<and>
   registered_path (sanitize_email ''a@b.c'') = registered_path (sanitize_email ''a_at_b_c'') \<and>
   check_email (req\<lparr>form_email := Some ''a@b.c''\<rparr>) w =
     check_email (req\<lparr>form_email := Some ''a_at_b_c''\<rparr>) w \<and>
   fst (submit demo_env alias_login_req (snd (submit demo_env register_req empty_world))) =
     Inr (Redirect Dashboard)"
proof -
  have same: "sanitize_email ''a@b.c'' = sanitize_email ''a_at_b_c''"
    by (simp add: string_defs)
  have "check_email (req\<lparr>form_email := Some ''a@b.c''\<rparr>) w =
          check_email (req\<lparr>form_email := Some ''a_at_b_c''\<rparr>) w"
    by (simp add: check_email_def string_defs)
  moreover have "fst (submit demo_env alias_login_req
                        (snd (submit demo_env register_req empty_world))) =
                   Inr (Redirect Dashboard)"
    by (simp add: string_defs world_defs app_defs demo_defs)
  ultimately show ?thesis
    using same by simp
qed

section \<open>Saving the upload\<close>

lemma save_base64_image_ok:
  assumes "save_base64_image env d p w = (Inr u, w1)"
  shows "\<exists>header encoded bs.
           split_once CHR '','' d = Some (header, encoded) \<and>
           b64decode env encoded = Inr bs \<and>
           directly_in STUDENTS_DIR p \<and>
           w1 = w\<lparr>files := AList.update p \<lparr>contents = bs, mtime = time_now env\<rparr>
                              (AList.update p \<lparr>contents = [], mtime = time_now env\<rparr> (files w)),
                   trace := trace w @ [EvOpen p, EvDecode, EvWrite p]\<rparr>"
  using assms
  by (auto simp: save_base64_image_def open_wb_def file_write_def emit_def
           split: option.splits sum.splits if_splits prod.splits)

lemma saved_world:
  assumes "save_base64_image env d p w = (Inr u, w1)"
  shows "\<exists>header encoded bs.
           split_once CHR '','' d = Some (header, encoded) \<and>
           b64decode env encoded = Inr bs \<and>
           file_at w1 p = Some \<lparr>contents = bs, mtime = time_now env\<rparr>"
    and "q \<noteq> p \<Longrightarrow> file_at w1 q = file_at w q"
    and "session w1 = session w"
    and "flashes w1 = flashes w"
    and "trace w1 = trace w @ [EvOpen p, EvDecode, EvWrite p]"
    and "directly_in STUDENTS_DIR p"
    and "d \<noteq> []"
  using save_base64_image_ok [OF assms]
  by (auto simp: file_at_def update_conv' split_once_def split: if_splits)

lemma submit_saved:
  assumes "req_email req \<noteq> []"
    and "form_mode req = Some ''login'' \<or> form_mode req = Some ''register''"
    and "save_base64_image env (req_image_data req)
           (temp_path env (sanitize_email (req_email req))) w = (Inr u, w1)"
  shows "submit env req w =
           submit_finally env (temp_path env (sanitize_email (req_email req)))
             (submit_except
               (submit_try env (form_mode req) (req_email req)
                  (temp_path env (sanitize_email (req_email req)))
                  (registered_path (sanitize_email (req_email req))) w1))"
  using assms saved_world(7) [OF assms(3)] by (auto simp: submit_def Let_def)


section \<open>Login\<close>

text \<open>
  C1. A login request whose e-mail address (stripped and lower-cased, as the handler
  reads it) is not empty, whose image is decoded and saved as the temporary file, in which
  the detector finds exactly one face, and for whose sanitized address a reference file
  is stored: the handler calls the library's \<open>verify\<close> on the temporary file and the
  reference file, that is on the new photo and the stored reference; it redirects to the
  dashboard exactly when the result's \<^verbatim>\<open>verified\<close> is true, and then the session holds
  \<^verbatim>\<open>logged_in\<close> and the address; otherwise it redirects home, leaves the session as it
  was and flashes the similarity \<open>max 0 ((1 - distance) * 100)\<close>, the distance being 1
  when the result has none.
\<close>

theorem login_verifies_against_reference:
  fixes env :: env and req :: request and w :: world
  defines "email \<equiv> req_email req"
  defines "tmp \<equiv> temp_path env (sanitize_email email)"
  defines "reg \<equiv> registered_path (sanitize_email email)"
  defines "out \<equiv> submit env req w"
  assumes mode: "form_mode req = Some ''login''"
    and nonempty: "email \<noteq> []"
    and saved: "save_base64_image env (req_image_data req) tmp w = (Inr (), w1)"
    and photo: "file_at w1 tmp = Some photo"
    and face: "extract_faces env (contents photo) = Inr 1"
    and ref: "file_at w reg = Some ref"
    and ver: "verify env (contents photo) (contents ref) = Inr result"
  shows "EvVerify tmp reg \<in> set (trace (snd out)) \<and>
         (fst out = Inr (Redirect Dashboard) \<longleftrightarrow> py_bool (res_verified result)) \<and>
         (py_bool (res_verified result) \<longrightarrow>
            session (snd out) ''logged_in'' = Some (PyBool True) \<and>
            session (snd out) ''email'' = Some (PyStr email)) \<and>
         (\<not> py_bool (res_verified result) \<longrightarrow>
            fst out = Inr (Redirect Home) \<and>
            session (snd out) = session w \<and>
            flashes (snd out) = flashes w @
              [(FaceNotRecognized
                  (max 0 ((1 - (case res_distance result of None \<Rightarrow> 1 | Some d \<Rightarrow> d)) * 100)),
                CatError)])"
proof -
  have neq: "reg \<noteq> tmp"
    using temp_path_neq_registered [of env "sanitize_email email"] by (simp add: reg_def tmp_def)
  note s = saved_world [OF saved]
  have ref1: "file_at w1 reg = Some ref"
    using s(2) [OF neq] ref by simp
  have eq: "out = submit_finally env tmp
                    (submit_except (submit_try env (Some ''login'') email tmp reg w1))"
    unfolding out_def using submit_saved [of req env w "()" w1] mode nonempty saved
    by (simp add: email_def tmp_def reg_def)
  show ?thesis
    unfolding eq using photo face ref1 ver s(3,4)
    by (cases "py_bool (res_verified result)")
       (simp_all add: submit_try_def submit_finally_def submit_except_def single_face_present_def
          deepface_extract_faces_def deepface_verify_def os_path_exists_def os_remove_def
          emit_def flash_def logger_def session_set_def file_at_def Let_def)
qed

theorem login_verifies_against_reference_witness:
  "form_mode login_req = Some ''login'' \<and>
   req_email login_req \<noteq> [] \<and>
   file_at enrolled_world (registered_path (sanitize_email (req_email login_req))) =
     Some \<lparr>contents = [65, 66, 67], mtime = 0\<rparr> \<and>
   extract_faces demo_env [65, 66, 67] = Inr 1 \<and>
   verify demo_env [65, 66, 67] [65, 66, 67] =
     Inr \<lparr>res_verified = Some True, res_distance = Some 0\<rparr> \<and>
   fst (submit demo_env login_req enrolled_world) = Inr (Redirect Dashboard) \<and>
   session (snd (submit demo_env login_req enrolled_world)) ''logged_in'' = Some (PyBool True)"
proof -
  define tmp where "tmp = temp_path demo_env (sanitize_email (req_email login_req))"
  define w1 where "w1 = snd (save_base64_image demo_env (req_image_data login_req) tmp enrolled_world)"
  have h1: "form_mode login_req = Some ''login''"
    by (simp add: demo_defs)
  have h2: "req_email login_req \<noteq> []"
    by (simp add: demo_defs string_defs)
  have h3: "save_base64_image demo_env (req_image_data login_req) tmp enrolled_world = (Inr (), w1)"
    unfolding w1_def tmp_def by (simp add: demo_defs string_defs world_defs save_base64_image_def)
  have h4: "file_at w1 tmp = Some \<lparr>contents = [65, 66, 67], mtime = 1000\<rparr>"
    unfolding w1_def tmp_def by (simp add: demo_defs string_defs world_defs save_base64_image_def)
  have h5: "extract_faces demo_env (contents \<lparr>contents = [65, 66, 67], mtime = 1000\<rparr>) = Inr 1"
    by (simp add: demo_defs)
  have h6: "file_at enrolled_world (registered_path (sanitize_email (req_email login_req))) =
              Some \<lparr>contents = [65, 66, 67], mtime = 0\<rparr>"
    by (simp add: demo_defs string_defs world_defs)
  have h7: "verify demo_env (contents \<lparr>contents = [65, 66, 67], mtime = 1000\<rparr>)
              (contents \<lparr>contents = [65, 66, 67], mtime = 0\<rparr>) =
            Inr \<lparr>res_verified = Some True, res_distance = Some 0\<rparr>"
    by (simp add: demo_defs)
  from login_verifies_against_reference [OF h1 h2 h3 [unfolded tmp_def] h4 [unfolded tmp_def] h5 h6 h7]
  have "fst (submit demo_env login_req enrolled_world) = Inr (Redirect Dashboard)"
    and "session (snd (submit demo_env login_req enrolled_world)) ''logged_in'' = Some (PyBool True)"
    by simp_all
  with h1 h2 h5 h6 h7 show ?thesis
    by simp
qed

section \<open>Registration\<close>



section \<open>The three clauses of the handler\<close>

lemma single_face_present_frame:
  "files (snd (single_face_present env p w)) = files w"
  "session (snd (single_face_present env p w)) = session w"
  "flashes (snd (single_face_present env p w)) = flashes w"
  "trace (snd (single_face_present env p w)) = trace w @ [EvExtractFaces p]"
  by (simp_all add: single_face_present_def deepface_extract_faces_def emit_def logger_def
        split: sum.splits)

text \<open>What the body of the \<^verbatim>\<open>try\<close> leaves behind: either the dashboard, with the three
  session keys set after a move or a verification, or anything else with the session
  untouched.\<close>

lemma submit_try_outcome:
  assumes "submit_try env mode email tmp reg w1 = (r, w2)"
    and "file_at w1 tmp \<noteq> None" and "reg \<noteq> tmp"
  shows "(r = Inr (Redirect Dashboard) \<and>
          session w2 = (session w1)(''_permanent'' \<mapsto> PyBool True, ''email'' \<mapsto> PyStr email,
                                    ''logged_in'' \<mapsto> PyBool True) \<and>
          ((mode = Some ''register'' \<and>
            flashes w2 = flashes w1 @ [(RegistrationSuccessful, CatSuccess)] \<and>
            trace w2 = trace w1 @ [EvExtractFaces tmp, EvReplace tmp reg,
              EvSession ''_permanent'', EvSession ''email'', EvSession ''logged_in''] \<and>
            file_at w2 tmp = None) \<or>
           (mode \<noteq> Some ''register'' \<and>
            flashes w2 = flashes w1 @ [(WelcomeBack email, CatSuccess)] \<and>
            trace w2 = trace w1 @ [EvExtractFaces tmp, EvVerify tmp reg,
              EvSession ''_permanent'', EvSession ''email'', EvSession ''logged_in''] \<and>
            file_at w2 tmp \<noteq> None))) \<or>
         (r \<noteq> Inr (Redirect Dashboard) \<and> session w2 = session w1 \<and>
          file_at w2 tmp \<noteq> None \<and>
          (case r of
             Inl e \<Rightarrow> flashes w2 = flashes w1
           | Inr resp \<Rightarrow> resp = Redirect Home \<and>
               (\<exists>m c. flashes w2 = flashes w1 @ [(m, c)] \<and> c \<noteq> CatSuccess)))"
  using assms
  by (auto simp: submit_try_def single_face_present_def deepface_extract_faces_def
        deepface_verify_def os_path_exists_def os_replace_def emit_def flash_def logger_def
        session_set_def file_at_def Let_def update_conv' delete_conv'
        split: sum.splits option.splits if_splits prod.splits)


lemma save_base64_image_frame:
  "session (snd (save_base64_image env d p w)) = session w"
  "flashes (snd (save_base64_image env d p w)) = flashes w"
  by (simp_all add: save_base64_image_def open_wb_def file_write_def emit_def
        split: option.splits sum.splits prod.splits)

lemma submit_finally_frame:
  "fst (submit_finally env tmp out) = fst out"
  "session (snd (submit_finally env tmp out)) = session (snd out)"
  "flashes (snd (submit_finally env tmp out)) = flashes (snd out)"
  "trace (snd (submit_finally env tmp out)) =
     (if os_path_exists tmp (snd out) then trace (snd out) @ [EvRemove tmp] else trace (snd out))"
  by (cases out; simp add: submit_finally_def os_remove_def emit_def)+

lemma submit_finally_removes:
  "\<not> remove_denied env tmp \<Longrightarrow> \<not> os_path_exists tmp (snd (submit_finally env tmp out))"
  by (cases out)
     (simp add: submit_finally_def os_remove_def emit_def os_path_exists_def file_at_def
        delete_conv')

text \<open>Every request that got its upload saved.\<close>

lemma submit_after_save:
  fixes env :: env and req :: request and w :: world
  defines "email \<equiv> req_email req"
  defines "tmp \<equiv> temp_path env (sanitize_email email)"
  defines "reg \<equiv> registered_path (sanitize_email email)"
  defines "out \<equiv> submit env req w"
  assumes nonempty: "email \<noteq> []"
    and mode: "form_mode req = Some ''login'' \<or> form_mode req = Some ''register''"
    and saved: "save_base64_image env (req_image_data req) tmp w = (Inr u, w1)"
  shows "(fst out = Inr (Redirect Dashboard) \<and>
          session (snd out) = (session w)(''_permanent'' \<mapsto> PyBool True,
             ''email'' \<mapsto> PyStr email, ''logged_in'' \<mapsto> PyBool True) \<and>
          ((form_mode req = Some ''register'' \<and>
            flashes (snd out) = flashes w @ [(RegistrationSuccessful, CatSuccess)] \<and>
            trace (snd out) = trace w @ [EvOpen tmp, EvDecode, EvWrite tmp,
              EvExtractFaces tmp, EvReplace tmp reg,
              EvSession ''_permanent'', EvSession ''email'', EvSession ''logged_in'']) \<or>
           (form_mode req = Some ''login'' \<and>
            flashes (snd out) = flashes w @ [(WelcomeBack email, CatSuccess)] \<and>
            trace (snd out) = trace w @ [EvOpen tmp, EvDecode, EvWrite tmp,
              EvExtractFaces tmp, EvVerify tmp reg,
              EvSession ''_permanent'', EvSession ''email'', EvSession ''logged_in'',
              EvRemove tmp]))) \<or>
         (fst out = Inr (Redirect Home) \<and> session (snd out) = session w \<and>
          (\<exists>m c. flashes (snd out) = flashes w @ [(m, c)] \<and> c \<noteq> CatSuccess) \<and>
          last (trace (snd out)) = EvRemove tmp)"
proof -
  note s = saved_world [OF saved]
  have neq: "reg \<noteq> tmp"
    using temp_path_neq_registered [of env "sanitize_email email"] by (simp add: reg_def tmp_def)
  have there: "file_at w1 tmp \<noteq> None"
    using s(1) by auto
  obtain r w2 where body: "submit_try env (form_mode req) email tmp reg w1 = (r, w2)"
    by (cases "submit_try env (form_mode req) email tmp reg w1")
  have eq: "out = submit_finally env tmp (submit_except (r, w2))"
    unfolding out_def using submit_saved [of req env w u w1] mode nonempty saved body
    by (simp add: email_def tmp_def reg_def)
  from submit_try_outcome [OF body there neq] mode show ?thesis
    unfolding eq
    by (cases r)
       (auto simp: submit_finally_frame submit_except_def os_path_exists_def flash_def
          logger_def file_at_def s)
qed

lemma submit_temp_removed:
  assumes "req_email req \<noteq> []"
    and "form_mode req = Some ''login'' \<or> form_mode req = Some ''register''"
    and "save_base64_image env (req_image_data req)
           (temp_path env (sanitize_email (req_email req))) w = (Inr u, w1)"
    and "\<not> remove_denied env (temp_path env (sanitize_email (req_email req)))"
  shows "\<not> os_path_exists (temp_path env (sanitize_email (req_email req)))
             (snd (submit env req w))"
  unfolding submit_saved [OF assms(1-3)] using assms(4) by (rule submit_finally_removes)

text \<open>Every request.\<close>

lemma submit_outcome:
  fixes env :: env and req :: request and w :: world
  defines "email \<equiv> req_email req"
  defines "tmp \<equiv> temp_path env (sanitize_email email)"
  defines "reg \<equiv> registered_path (sanitize_email email)"
  defines "out \<equiv> submit env req w"
  shows "(fst out = Inr (Redirect Dashboard) \<and>
          session (snd out) = (session w)(''_permanent'' \<mapsto> PyBool True,
             ''email'' \<mapsto> PyStr email, ''logged_in'' \<mapsto> PyBool True) \<and>
          ((form_mode req = Some ''register'' \<and>
            flashes (snd out) = flashes w @ [(RegistrationSuccessful, CatSuccess)] \<and>
            trace (snd out) = trace w @ [EvOpen tmp, EvDecode, EvWrite tmp,
              EvExtractFaces tmp, EvReplace tmp reg,
              EvSession ''_permanent'', EvSession ''email'', EvSession ''logged_in'']) \<or>
           (form_mode req = Some ''login'' \<and>
            flashes (snd out) = flashes w @ [(WelcomeBack email, CatSuccess)] \<and>
            trace (snd out) = trace w @ [EvOpen tmp, EvDecode, EvWrite tmp,
              EvExtractFaces tmp, EvVerify tmp reg,
              EvSession ''_permanent'', EvSession ''email'', EvSession ''logged_in'',
              EvRemove tmp]))) \<or>
         (fst out = Inr (Redirect Home) \<and> session (snd out) = session w \<and>
          (\<exists>m c. flashes (snd out) = flashes w @ [(m, c)] \<and> c \<noteq> CatSuccess))"
proof (cases "email = [] \<or> (form_mode req \<noteq> Some ''login'' \<and> form_mode req \<noteq> Some ''register'') \<or>
              req_image_data req = []")
  case True
  then have "out = (Inr (Redirect Home), flash MissingFields CatError w)"
    by (auto simp: out_def email_def submit_def Let_def)
  then show ?thesis
    by (simp add: flash_def)
next
  case False
  then have ok: "email \<noteq> []" "form_mode req = Some ''login'' \<or> form_mode req = Some ''register''"
    by auto
  obtain r w1 where sv: "save_base64_image env (req_image_data req) tmp w = (r, w1)"
    by (cases "save_base64_image env (req_image_data req) tmp w")
  show ?thesis
  proof (cases r)
    case (Inl e)
    with False sv have "out = (Inr (Redirect Home), flash (CouldNotDecode e) CatError w1)"
      by (auto simp: out_def email_def tmp_def submit_def Let_def)
    moreover have "session w1 = session w" "flashes w1 = flashes w"
      using save_base64_image_frame [of env "req_image_data req" tmp w] sv by simp_all
    ultimately show ?thesis
      by (simp add: flash_def)
  next
    case (Inr u)
    with sv have "save_base64_image env (req_image_data req) tmp w = (Inr u, w1)"
      by simp
    from submit_after_save [OF ok [unfolded email_def] this [unfolded tmp_def email_def]]
    show ?thesis
      unfolding out_def tmp_def reg_def email_def by blast
  qed
qed

section \<open>The session flag\<close>



section \<open>The temporary file\<close>

text \<open>
  C4. A request whose temporary file has been written (the fields are present and
  \<open>save_base64_image\<close> returned) ends with a response, never with an exception, and
  every exit path runs the cleanup of the \<^verbatim>\<open>finally\<close> clause: the outcome is
  \<open>submit_finally\<close> applied to what the body and the \<^verbatim>\<open>except\<close> clause left. The cleanup
  calls \<^verbatim>\<open>os.remove\<close> on the temporary file, as the last effect of the request,
  whenever the file is still there; it is not there only after a successful registration,
  which has moved it to the reference path. Unless the operating system refuses the
  removal, the temporary file does not exist when the request is finished; a refused
  removal is swallowed.
\<close>

theorem temp_file_cleaned_on_every_exit:
  fixes env :: env and req :: request and w :: world
  defines "tmp \<equiv> temp_path env (sanitize_email (req_email req))"
  defines "out \<equiv> submit env req w"
  assumes nonempty: "req_email req \<noteq> []"
    and mode: "form_mode req = Some ''login'' \<or> form_mode req = Some ''register''"
    and saved: "save_base64_image env (req_image_data req) tmp w = (Inr (), w1)"
  shows "(\<exists>resp. fst out = Inr resp) \<and>
         (\<exists>pre. out = submit_finally env tmp pre \<and>
            (os_path_exists tmp (snd pre) \<longrightarrow> last (trace (snd out)) = EvRemove tmp) \<and>
            (\<not> os_path_exists tmp (snd pre) \<longrightarrow>
               form_mode req = Some ''register'' \<and> fst out = Inr (Redirect Dashboard))) \<and>
         (\<not> remove_denied env tmp \<longrightarrow> \<not> os_path_exists tmp (snd out))"
proof -
  define reg where "reg = registered_path (sanitize_email (req_email req))"
  define pre where "pre = submit_except (submit_try env (form_mode req) (req_email req) tmp reg w1)"
  have eq: "out = submit_finally env tmp pre"
    unfolding out_def pre_def reg_def tmp_def
    using submit_saved [OF nonempty mode saved [unfolded tmp_def]] .
  have resp: "\<exists>resp. fst out = Inr resp"
    using submit_outcome [of env req w] unfolding out_def by auto
  have called: "os_path_exists tmp (snd pre) \<Longrightarrow> last (trace (snd out)) = EvRemove tmp"
    unfolding eq by (simp add: submit_finally_frame)
  have moved: "form_mode req = Some ''register'' \<and> fst out = Inr (Redirect Dashboard)"
    if gone: "\<not> os_path_exists tmp (snd pre)"
  proof -
    have neq: "reg \<noteq> tmp"
      using temp_path_neq_registered [of env "sanitize_email (req_email req)"]
      by (simp add: reg_def tmp_def)
    have there: "file_at w1 tmp \<noteq> None"
      using saved_world(1) [OF saved] by auto
    obtain r w2 where
      body: "submit_try env (form_mode req) (req_email req) tmp reg w1 = (r, w2)"
      by (cases "submit_try env (form_mode req) (req_email req) tmp reg w1")
    have "file_at (snd pre) tmp = file_at w2 tmp"
      unfolding pre_def body
      by (cases r) (simp_all add: submit_except_def flash_def logger_def file_at_def)
    with gone have "file_at w2 tmp = None"
      by (simp add: os_path_exists_def)
    with submit_try_outcome [OF body there neq]
    have "r = Inr (Redirect Dashboard)" and "form_mode req = Some ''register''"
      by auto
    then show ?thesis
      unfolding eq pre_def body by (simp add: submit_finally_frame submit_except_def)
  qed
  have "\<not> remove_denied env tmp \<Longrightarrow> \<not> os_path_exists tmp (snd out)"
    unfolding eq by (rule submit_finally_removes)
  with eq resp called moved show ?thesis
    by blast
qed

theorem temp_file_cleaned_on_every_exit_witness:
  "req_email stranger_login_req \<noteq> [] \<and>
   form_mode stranger_login_req = Some ''login'' \<and>
   fst (save_base64_image demo_env (req_image_data stranger_login_req)
          ''students/temp_a_at_b_c_abcd01ef.jpg'' enrolled_world) = Inr () \<and>
   \<not> remove_denied demo_env ''students/temp_a_at_b_c_abcd01ef.jpg'' \<and>
   last (trace (snd (submit demo_env stranger_login_req enrolled_world))) =
     EvRemove ''students/temp_a_at_b_c_abcd01ef.jpg'' \<and>
   \<not> os_path_exists ''students/temp_a_at_b_c_abcd01ef.jpg''
       (snd (submit demo_env stranger_login_req enrolled_world))"
proof -
  define w1 where
    "w1 = snd (save_base64_image demo_env (req_image_data stranger_login_req)
                 ''students/temp_a_at_b_c_abcd01ef.jpg'' enrolled_world)"
  have tmp: "temp_path demo_env (sanitize_email (req_email stranger_login_req)) =
               ''students/temp_a_at_b_c_abcd01ef.jpg''"
    by (simp add: string_defs demo_defs)
  have h1: "req_email stranger_login_req \<noteq> []"
    by (simp add: string_defs demo_defs)
  have h2: "form_mode stranger_login_req = Some ''login''"
    by (simp add: demo_defs)
  have h3: "save_base64_image demo_env (req_image_data stranger_login_req)
              ''students/temp_a_at_b_c_abcd01ef.jpg'' enrolled_world = (Inr (), w1)"
    unfolding w1_def by (simp add: demo_defs string_defs world_defs save_base64_image_def)
  have h4: "\<not> remove_denied demo_env ''students/temp_a_at_b_c_abcd01ef.jpg''"
    by (simp add: demo_defs)
  have h2': "form_mode stranger_login_req = Some ''login'' \<or>
             form_mode stranger_login_req = Some ''register''"
    using h2 by simp
  from temp_file_cleaned_on_every_exit [OF h1 h2' h3 [folded tmp]] h2 h4
  have "last (trace (snd (submit demo_env stranger_login_req enrolled_world))) =
          EvRemove ''students/temp_a_at_b_c_abcd01ef.jpg''"
    and "\<not> os_path_exists ''students/temp_a_at_b_c_abcd01ef.jpg''
           (snd (submit demo_env stranger_login_req enrolled_world))"
    unfolding tmp by auto
  with h1 h2 h3 h4 show ?thesis
    by simp
qed

section \<open>The order of the steps\<close>

text \<open>
  C3, as stated, fails for a successful login: the three session keys are set inside
  the \<^verbatim>\<open>try\<close>, and the temporary file, the only path a login updates after the library
  calls, is removed by the \<^verbatim>\<open>finally\<close> clause, after them. The login of \<^verbatim>\<open>a@b.c\<close> with the
  photo of the enrolled reference is such a run.
\<close>

theorem submit_order_counterexample:
  "fst (submit demo_env login_req enrolled_world) = Inr (Redirect Dashboard) \<and>
   trace (snd (submit demo_env login_req enrolled_world)) =
     [EvOpen ''students/temp_a_at_b_c_abcd01ef.jpg'', EvDecode,
      EvWrite ''students/temp_a_at_b_c_abcd01ef.jpg'',
      EvExtractFaces ''students/temp_a_at_b_c_abcd01ef.jpg'',
      EvVerify ''students/temp_a_at_b_c_abcd01ef.jpg'' ''students/a_at_b_c.jpg'',
      EvSession ''_permanent'', EvSession ''email'', EvSession ''logged_in'',
      EvRemove ''students/temp_a_at_b_c_abcd01ef.jpg''] \<and>
   \<not> session_set_last (trace (snd (submit demo_env login_req enrolled_world)))"
proof -
  have run: "trace (snd (submit demo_env login_req enrolled_world)) =
     [EvOpen ''students/temp_a_at_b_c_abcd01ef.jpg'', EvDecode,
      EvWrite ''students/temp_a_at_b_c_abcd01ef.jpg'',
      EvExtractFaces ''students/temp_a_at_b_c_abcd01ef.jpg'',
      EvVerify ''students/temp_a_at_b_c_abcd01ef.jpg'' ''students/a_at_b_c.jpg'',
      EvSession ''_permanent'', EvSession ''email'', EvSession ''logged_in'',
      EvRemove ''students/temp_a_at_b_c_abcd01ef.jpg'']"
    by (simp add: string_defs world_defs app_defs demo_defs)
  have "fst (submit demo_env login_req enrolled_world) = Inr (Redirect Dashboard)"
    by (simp add: string_defs world_defs app_defs demo_defs)
  moreover have "\<not> session_set_last (trace (snd (submit demo_env login_req enrolled_world)))"
    unfolding run by simp
  ultimately show ?thesis
    using run by simp
qed

text \<open>
  C3, amended. A request that ends in success (the redirect to the dashboard) has done
  exactly this, in this order. It opened the temporary file, decoded the image, wrote it
  to the file and called the face detector on that file. A registration then moved the
  temporary file to the reference path and only then set the session keys. A login then
  called the library's verification on the temporary file and the reference, set the
  session keys, and had the temporary file removed last, by the \<^verbatim>\<open>finally\<close> clause. In
  both, no session key is set and no reference is written before the detector has been
  called on the upload.
\<close>

theorem submit_order_of_effects:
  fixes env :: env and req :: request and w :: world
  defines "tmp \<equiv> temp_path env (sanitize_email (req_email req))"
  defines "reg \<equiv> registered_path (sanitize_email (req_email req))"
  defines "out \<equiv> submit env req w"
  assumes success: "fst out = Inr (Redirect Dashboard)"
  shows "(form_mode req = Some ''register'' \<and>
          trace (snd out) = trace w @
            [EvOpen tmp, EvDecode, EvWrite tmp, EvExtractFaces tmp, EvReplace tmp reg,
             EvSession ''_permanent'', EvSession ''email'', EvSession ''logged_in'']) \<or>
         (form_mode req = Some ''login'' \<and>
          trace (snd out) = trace w @
            [EvOpen tmp, EvDecode, EvWrite tmp, EvExtractFaces tmp, EvVerify tmp reg,
             EvSession ''_permanent'', EvSession ''email'', EvSession ''logged_in'',
             EvRemove tmp])"
  using submit_outcome [of env req w] success
  unfolding out_def tmp_def reg_def by auto

theorem submit_order_of_effects_witness:
  "fst (submit demo_env register_req empty_world) = Inr (Redirect Dashboard) \<and>
   form_mode register_req = Some ''register'' \<and>
   trace (snd (submit demo_env register_req empty_world)) =
     [EvOpen ''students/temp_a_at_b_c_abcd01ef.jpg'', EvDecode,
      EvWrite ''students/temp_a_at_b_c_abcd01ef.jpg'',
      EvExtractFaces ''students/temp_a_at_b_c_abcd01ef.jpg'',
      EvReplace ''students/temp_a_at_b_c_abcd01ef.jpg'' ''students/a_at_b_c.jpg'',
      EvSession ''_permanent'', EvSession ''email'', EvSession ''logged_in''] \<and>
   session_set_last (trace (snd (submit demo_env register_req empty_world)))"
proof -
  have d: "fst (submit demo_env register_req empty_world) = Inr (Redirect Dashboard)"
    by (simp add: string_defs world_defs app_defs demo_defs)
  have m: "form_mode register_req = Some ''register''"
    by (simp add: demo_defs)
  have tmp: "temp_path demo_env (sanitize_email (req_email register_req)) =
               ''students/temp_a_at_b_c_abcd01ef.jpg''"
    by (simp add: string_defs demo_defs)
  have reg: "registered_path (sanitize_email (req_email register_req)) =
               ''students/a_at_b_c.jpg''"
    by (simp add: string_defs demo_defs)
  have t: "trace empty_world = []"
    by (simp add: demo_defs)
  from submit_order_of_effects [OF d] m
  have run: "trace (snd (submit demo_env register_req empty_world)) =
     [EvOpen ''students/temp_a_at_b_c_abcd01ef.jpg'', EvDecode,
      EvWrite ''students/temp_a_at_b_c_abcd01ef.jpg'',
      EvExtractFaces ''students/temp_a_at_b_c_abcd01ef.jpg'',
      EvReplace ''students/temp_a_at_b_c_abcd01ef.jpg'' ''students/a_at_b_c.jpg'',
      EvSession ''_permanent'', EvSession ''email'', EvSession ''logged_in'']"
    by (simp add: tmp reg t)
  moreover have "session_set_last (trace (snd (submit demo_env register_req empty_world)))"
    unfolding run by simp
  ultimately show ?thesis
    using d m by simp
qed

section \<open>Exceptions of the face library\<close>

lemma single_face_present_raises:
  "fst (deepface_extract_faces env p w) = Inl e \<Longrightarrow> fst (single_face_present env p w) = False"
  by (cases "deepface_extract_faces env p w") (simp add: single_face_present_def)

lemma submit_detector_raises:
  fixes env :: env and req :: request and w :: world
  defines "tmp \<equiv> temp_path env (sanitize_email (req_email req))"
  assumes nonempty: "req_email req \<noteq> []"
    and mode: "form_mode req = Some ''login'' \<or> form_mode req = Some ''register''"
    and saved: "save_base64_image env (req_image_data req) tmp w = (Inr (), w1)"
    and raises: "fst (deepface_extract_faces env tmp w1) = Inl e"
  shows "fst (submit env req w) = Inr (Redirect Home) \<and>
         flashes (snd (submit env req w)) = flashes w @ [(NoFaceOrMultiple, CatError)]"
proof -
  have "fst (single_face_present env tmp w1) = False"
    using raises by (rule single_face_present_raises)
  then show ?thesis
    unfolding submit_saved [OF nonempty mode saved [unfolded tmp_def]] tmp_def [symmetric]
    using saved_world(4) [OF saved] single_face_present_frame(3) [of env tmp w1]
    by (cases "single_face_present env tmp w1")
       (simp add: submit_try_def submit_except_def submit_finally_frame flash_def)
qed

lemma submit_verify_raises:
  fixes env :: env and req :: request and w :: world
  defines "tmp \<equiv> temp_path env (sanitize_email (req_email req))"
  defines "reg \<equiv> registered_path (sanitize_email (req_email req))"
  assumes nonempty: "req_email req \<noteq> []"
    and mode: "form_mode req = Some ''login''"
    and saved: "save_base64_image env (req_image_data req) tmp w = (Inr (), w1)"
    and face: "fst (single_face_present env tmp w1)"
    and ref: "os_path_exists reg w"
    and raises: "fst (deepface_verify env tmp reg w1) = Inl e"
  shows "fst (submit env req w) = Inr (Redirect Home) \<and>
         flashes (snd (submit env req w)) = flashes w @ [(AuthenticationError e, CatError)]"
proof -
  have neq: "reg \<noteq> tmp"
    using temp_path_neq_registered [of env "sanitize_email (req_email req)"]
    by (simp add: reg_def tmp_def)
  note s = saved_world [OF saved]
  have ref1: "os_path_exists reg w1"
    using s(2) [OF neq] ref by (simp add: os_path_exists_def)
  have mode': "form_mode req = Some ''login'' \<or> form_mode req = Some ''register''"
    using mode by simp
  show ?thesis
    unfolding submit_saved [OF nonempty mode' saved [unfolded tmp_def]]
      tmp_def [symmetric] reg_def [symmetric]
    using face ref1 raises s(4) mode
    by (auto simp: submit_try_def submit_except_def submit_finally_frame flash_def logger_def
          single_face_present_def deepface_extract_faces_def deepface_verify_def emit_def
          os_path_exists_def file_at_def Let_def
          split: sum.splits option.splits prod.splits if_splits)
qed

text \<open>
  C5. No exception of the face library leaves the handler: \<open>submit\<close> always answers with a
  response. When the face-extraction call raises, \<open>single_face_present\<close> returns
  \<open>False\<close>, and a request that got that far ends with the detection error flashed and the
  redirect home. When the \<open>verify\<close> call raises in a login that got that far, the handler
  flashes the authentication error with that exception and redirects home.
\<close>

theorem face_library_exceptions_caught:
  fixes env :: env and req :: request and w :: world
  defines "tmp \<equiv> temp_path env (sanitize_email (req_email req))"
  defines "reg \<equiv> registered_path (sanitize_email (req_email req))"
  defines "out \<equiv> submit env req w"
  shows "(\<exists>resp. fst out = Inr resp) \<and>
   (fst (deepface_extract_faces env p w) = Inl e \<longrightarrow> \<not> fst (single_face_present env p w)) \<and>
   (req_email req \<noteq> [] \<and>
    (form_mode req = Some ''login'' \<or> form_mode req = Some ''register'') \<and>
    save_base64_image env (req_image_data req) tmp w = (Inr (), w1) \<and>
    fst (deepface_extract_faces env tmp w1) = Inl e1 \<longrightarrow>
    fst out = Inr (Redirect Home) \<and>
    flashes (snd out) = flashes w @ [(NoFaceOrMultiple, CatError)]) \<and>
   (req_email req \<noteq> [] \<and> form_mode req = Some ''login'' \<and>
    save_base64_image env (req_image_data req) tmp w = (Inr (), w1) \<and>
    fst (single_face_present env tmp w1) \<and>
    os_path_exists reg w \<and>
    fst (deepface_verify env tmp reg w1) = Inl e2 \<longrightarrow>
    fst out = Inr (Redirect Home) \<and>
    flashes (snd out) = flashes w @ [(AuthenticationError e2, CatError)])"
  unfolding tmp_def reg_def out_def
  using submit_outcome [of env req w] single_face_present_raises [of env p w e]
    submit_detector_raises [of req env w w1 e1] submit_verify_raises [of req env w w1 e2]
  by blast

theorem face_library_exceptions_caught_witness:
  "fst (deepface_extract_faces failing_detector_env ''students/temp_a_at_b_c_abcd01ef.jpg''
          (snd (save_base64_image failing_detector_env (req_image_data login_req)
                  ''students/temp_a_at_b_c_abcd01ef.jpg'' enrolled_world))) =
     Inl (LibraryError ''detector backend failed'') \<and>
   fst (submit failing_detector_env login_req enrolled_world) = Inr (Redirect Home) \<and>
   flashes (snd (submit failing_detector_env login_req enrolled_world)) =
     [(NoFaceOrMultiple, CatError)] \<and>
   fst (deepface_verify failing_verify_env ''students/temp_a_at_b_c_abcd01ef.jpg''
          ''students/a_at_b_c.jpg''
          (snd (save_base64_image failing_verify_env (req_image_data login_req)
                  ''students/temp_a_at_b_c_abcd01ef.jpg'' enrolled_world))) =
     Inl (LibraryError ''model could not be loaded'') \<and>
   fst (submit failing_verify_env login_req enrolled_world) = Inr (Redirect Home) \<and>
   flashes (snd (submit failing_verify_env login_req enrolled_world)) =
     [(AuthenticationError (LibraryError ''model could not be loaded''), CatError)]"
proof -
  define tmp where "tmp = ''students/temp_a_at_b_c_abcd01ef.jpg''"
  define reg where "reg = ''students/a_at_b_c.jpg''"
  define wd where "wd = snd (save_base64_image failing_detector_env (req_image_data login_req)
                               tmp enrolled_world)"
  define wv where "wv = snd (save_base64_image failing_verify_env (req_image_data login_req)
                               tmp enrolled_world)"
  have tmpd: "temp_path failing_detector_env (sanitize_email (req_email login_req)) = tmp"
    by (simp add: string_defs demo_defs tmp_def)
  have tmpv: "temp_path failing_verify_env (sanitize_email (req_email login_req)) = tmp"
    by (simp add: string_defs demo_defs tmp_def)
  have regp: "registered_path (sanitize_email (req_email login_req)) = reg"
    by (simp add: string_defs demo_defs reg_def)
  have h1: "req_email login_req \<noteq> []"
    by (simp add: string_defs demo_defs)
  have h2: "form_mode login_req = Some ''login''"
    by (simp add: demo_defs)
  have sd: "save_base64_image failing_detector_env (req_image_data login_req) tmp
              enrolled_world = (Inr (), wd)"
    unfolding wd_def tmp_def by (simp add: demo_defs string_defs world_defs save_base64_image_def)
  have sv: "save_base64_image failing_verify_env (req_image_data login_req) tmp
              enrolled_world = (Inr (), wv)"
    unfolding wv_def tmp_def by (simp add: demo_defs string_defs world_defs save_base64_image_def)
  have rd: "fst (deepface_extract_faces failing_detector_env tmp wd) =
              Inl (LibraryError ''detector backend failed'')"
    unfolding wd_def tmp_def
    by (simp add: demo_defs string_defs world_defs save_base64_image_def
          deepface_extract_faces_def)
  have fv: "fst (single_face_present failing_verify_env tmp wv)"
    unfolding wv_def tmp_def
    by (simp add: demo_defs string_defs world_defs save_base64_image_def
          deepface_extract_faces_def single_face_present_def)
  have ex: "os_path_exists reg enrolled_world"
    by (simp add: demo_defs world_defs reg_def)
  have rv: "fst (deepface_verify failing_verify_env tmp reg wv) =
              Inl (LibraryError ''model could not be loaded'')"
    unfolding wv_def tmp_def reg_def
    by (simp add: demo_defs string_defs world_defs save_base64_image_def deepface_verify_def)
  have fl: "flashes enrolled_world = []"
    by (simp add: demo_defs)
  from face_library_exceptions_caught
         [where env = failing_detector_env and req = login_req and w = enrolled_world
            and ?w1.0 = wd and ?e1.0 = "LibraryError ''detector backend failed''"]
       h1 h2 sd rd
  have d: "fst (submit failing_detector_env login_req enrolled_world) = Inr (Redirect Home) \<and>
           flashes (snd (submit failing_detector_env login_req enrolled_world)) =
             [(NoFaceOrMultiple, CatError)]"
    by (simp add: tmpd fl)
  from face_library_exceptions_caught
         [where env = failing_verify_env and req = login_req and w = enrolled_world
            and ?w1.0 = wv and ?e2.0 = "LibraryError ''model could not be loaded''"]
       h1 h2 sv fv ex rv
  have v: "fst (submit failing_verify_env login_req enrolled_world) = Inr (Redirect Home) \<and>
           flashes (snd (submit failing_verify_env login_req enrolled_world)) =
             [(AuthenticationError (LibraryError ''model could not be loaded''), CatError)]"
    by (simp add: tmpv regp fl)
  from d v rd rv show ?thesis
    by (simp add: wd_def wv_def tmp_def reg_def)
qed

section \<open>Dashboard and logout\<close>

text \<open>
  C10. \<open>dashboard\<close> renders the dashboard page, with the session's e-mail address, exactly
  when \<^verbatim>\<open>session['logged_in']\<close> is truthy, and changes nothing then; otherwise it flashes the
  log-in-required error and redirects home. \<open>logout\<close> clears the whole session, whatever
  it held, and redirects home; the dashboard after a logout is the redirect.
\<close>

theorem dashboard_gated_by_session_flag:
  "(truthy (session w ''logged_in'') \<longrightarrow>
      dashboard w = (RenderDashboard (session w ''email''), w)) \<and>
   (\<not> truthy (session w ''logged_in'') \<longrightarrow>
      dashboard w = (Redirect Home, flash NeedLogin CatError w)) \<and>
   fst (logout w) = Redirect Home \<and>
   session (snd (logout w)) = Map.empty \<and>
   flashes (snd (logout w)) = [(LoggedOut, CatInfo)] \<and>
   dashboard (snd (logout w)) = (Redirect Home, flash NeedLogin CatError (snd (logout w)))"
  by (simp add: dashboard_def logout_def flash_def)

theorem dashboard_gated_by_session_flag_witness:
  "truthy (session logged_in_world ''logged_in'') \<and>
   dashboard logged_in_world = (RenderDashboard (Some (PyStr ''a@b.c'')), logged_in_world) \<and>
   \<not> truthy (session empty_world ''logged_in'') \<and>
   fst (dashboard empty_world) = Redirect Home \<and>
   fst (dashboard (snd (logout logged_in_world))) = Redirect Home"
proof -
  have t: "truthy (session logged_in_world ''logged_in'')"
    by (simp add: demo_defs)
  have e: "session logged_in_world ''email'' = Some (PyStr ''a@b.c'')"
    by (simp add: demo_defs)
  have n: "\<not> truthy (session empty_world ''logged_in'')"
    by (simp add: demo_defs)
  from dashboard_gated_by_session_flag [of logged_in_world] t e
  have "dashboard logged_in_world = (RenderDashboard (Some (PyStr ''a@b.c'')), logged_in_world)"
    and "fst (dashboard (snd (logout logged_in_world))) = Redirect Home"
    by simp_all
  moreover from dashboard_gated_by_session_flag [of empty_world] n
  have "fst (dashboard empty_world) = Redirect Home"
    by simp
  ultimately show ?thesis
    using t n by simp
qed

section \<open>The key of the store\<close>

text \<open>What of C7 holds: \<open>check_email\<close> answers 400 exactly for an empty stripped address;
  for a sanitized name that does not begin with a slash it reports whether
  \<^verbatim>\<open>students/<name>.jpg\<close> exists; and a login that got as far as the lookup and finds no
  reference is turned away with the register-first error, the library's \<open>verify\<close> never
  called.\<close>

lemma check_email_empty:
  "check_email req w = JsonError ''Email required'' 400 \<longleftrightarrow> req_email req = []"
  by (simp add: check_email_def Let_def)

lemma check_email_relative:
  assumes "form_email req = Some raw" and "req_email req \<noteq> []"
    and "\<not> startswith ''/'' (sanitize_email raw)"
  shows "check_email req w =
           JsonRegistered (os_path_exists (''students/'' @ sanitize_email raw @ ''.jpg'') w)"
proof -
  have "\<not> startswith ''/'' (sanitize_email raw @ ''.jpg'')"
    using assms(3) by (cases "sanitize_email raw") (simp_all add: startswith_def)
  then show ?thesis
    using assms(2) sanitize_email_req_email [OF assms(1)]
    by (simp add: check_email_def Let_def registered_path_def os_path_join_def STUDENTS_DIR_def)
qed

lemma login_without_reference:
  fixes env :: env and req :: request and w :: world
  defines "tmp \<equiv> temp_path env (sanitize_email (req_email req))"
  defines "reg \<equiv> registered_path (sanitize_email (req_email req))"
  assumes nonempty: "req_email req \<noteq> []"
    and mode: "form_mode req = Some ''login''"
    and saved: "save_base64_image env (req_image_data req) tmp w = (Inr (), w1)"
    and face: "fst (single_face_present env tmp w1)"
    and missing: "\<not> os_path_exists reg w"
  shows "fst (submit env req w) = Inr (Redirect Home) \<and>
         flashes (snd (submit env req w)) = flashes w @ [(NoRegisteredFace, CatError)] \<and>
         trace (snd (submit env req w)) =
           trace w @ [EvOpen tmp, EvDecode, EvWrite tmp, EvExtractFaces tmp, EvRemove tmp]"
proof -
  have neq: "reg \<noteq> tmp"
    using temp_path_neq_registered [of env "sanitize_email (req_email req)"]
    by (simp add: reg_def tmp_def)
  note s = saved_world [OF saved]
  have missing1: "\<not> os_path_exists reg w1"
    using s(2) [OF neq] missing by (simp add: os_path_exists_def)
  have there: "os_path_exists tmp w1"
    using s(1) by (auto simp: os_path_exists_def)
  have mode': "form_mode req = Some ''login'' \<or> form_mode req = Some ''register''"
    using mode by simp
  show ?thesis
    unfolding submit_saved [OF nonempty mode' saved [unfolded tmp_def]]
      tmp_def [symmetric] reg_def [symmetric]
    using face missing1 there s(4,5) mode
      single_face_present_frame [of env tmp w1]
    by (cases "single_face_present env tmp w1")
       (simp add: submit_try_def submit_except_def submit_finally_frame flash_def
          os_path_exists_def file_at_def)
qed

text \<open>
  C7 fails where the sanitized name begins with a slash: \<open>sanitize_email\<close> leaves the slash
  in place and \<^verbatim>\<open>os.path.join\<close> then drops \<^verbatim>\<open>students\<close>. For the address \<^verbatim>\<open>/x\<close>, in a world
  whose only file is \<^verbatim>\<open>/x.jpg\<close>, outside the store, \<open>check_email\<close> reports a registered
  user although no file \<^verbatim>\<open>students/<sanitize_email(email)>.jpg\<close> exists.
\<close>

theorem check_email_outside_store:
  "req_email slash_req = ''/x'' \<and>
   sanitize_email ''/x'' = ''/x'' \<and>
   registered_path (sanitize_email ''/x'') = ''/x.jpg'' \<and>
   map fst (files outside_world) = [''/x.jpg''] \<and>
   \<not> os_path_exists (''students/'' @ sanitize_email ''/x'' @ ''.jpg'') outside_world \<and>
   check_email slash_req outside_world = JsonRegistered True"
  by (simp add: string_defs world_defs check_email_def demo_defs)

section \<open>Cleaning up old files\<close>

lemma os_remove_file_at:
  "file_at (snd (os_remove env q w)) p =
     (if fst (os_remove env q w) = Inr () \<and> p = q then None else file_at w p)"
  by (simp add: os_remove_def emit_def file_at_def delete_conv' os_path_exists_def)

lemma os_remove_ok:
  "os_remove env q w = (Inr u, w1) \<Longrightarrow> file_at w1 p = (if p = q then None else file_at w p)"
  using os_remove_file_at [of env q w p] by (cases u) simp

lemma os_remove_failed:
  "os_remove env q w = (Inl e, w1) \<Longrightarrow> file_at w1 p = file_at w p"
  using os_remove_file_at [of env q w p] by simp

text \<open>What of C8 holds: the loop, and so \<open>cleanup_old_files\<close>, changes the store only by
  removing files \<^verbatim>\<open>students/temp_...\<close> whose modification time lies more than
  \<open>MAX_FILE_AGE_DAYS\<close> days before now; all other files are left as they are.\<close>

lemma cleanup_loop_frame:
  "file_at (snd (cleanup_loop env now names w)) p = file_at w p \<or>
   (file_at (snd (cleanup_loop env now names w)) p = None \<and>
    (\<exists>n f. startswith ''temp_'' n \<and> p = os_path_join STUDENTS_DIR n \<and>
           file_at w p = Some f \<and> mtime f < now - MAX_FILE_AGE_DAYS * 86400))"
proof (induction names arbitrary: w)
  case Nil
  show ?case by simp
next
  case (Cons filename rest)
  define filepath where "filepath = os_path_join STUDENTS_DIR filename"
  show ?case
  proof (cases "startswith ''temp_'' filename")
    case False
    then show ?thesis
      using Cons.IH [of w] by simp
  next
    case True
    show ?thesis
    proof (cases "os_path_getmtime filepath w")
      case (Inl e)
      with True show ?thesis
        by (simp add: filepath_def)
    next
      case (Inr t)
      then obtain f where f: "file_at w filepath = Some f" and t: "t = mtime f"
        by (auto simp: os_path_getmtime_def split: option.splits)
      show ?thesis
      proof (cases "t < now - MAX_FILE_AGE_DAYS * 86400")
        case False
        with True Inr show ?thesis
          using Cons.IH [of w] by (simp add: filepath_def)
      next
        case old: True
        obtain r w1 where rm: "os_remove env filepath w = (r, w1)"
          by (cases "os_remove env filepath w")
        show ?thesis
        proof (cases r)
          case (Inl e)
          with True Inr old rm show ?thesis
            using os_remove_failed [of env filepath w e w1 p] by (simp add: filepath_def)
        next
          case r: (Inr u)
          have w1: "file_at w1 p = (if p = filepath then None else file_at w p)"
            using os_remove_ok rm r by simp
          have step: "cleanup_loop env now (filename # rest) w =
                        cleanup_loop env now rest (logger (CleanupRemoved filename) w1)"
            using True Inr old rm r by (simp add: filepath_def)
          have lg: "file_at (logger (CleanupRemoved filename) w1) p = file_at w1 p"
            by (simp add: logger_def file_at_def)
          from Cons.IH [of "logger (CleanupRemoved filename) w1"] show ?thesis
            unfolding step lg w1 using True f t old
            by (auto simp: filepath_def split: if_splits)
        qed
      qed
    qed
  qed
qed

lemma cleanup_old_files_frame:
  "file_at (cleanup_old_files env w) p = file_at w p \<or>
   (file_at (cleanup_old_files env w) p = None \<and>
    (\<exists>n f. startswith ''temp_'' n \<and> p = ''students/'' @ n \<and>
           file_at w p = Some f \<and> mtime f < time_now env - 30 * 86400))"
proof -
  have join: "os_path_join STUDENTS_DIR n = ''students/'' @ n" if "startswith ''temp_'' n" for n
    using that by (cases n) (auto simp: startswith_def os_path_join_def STUDENTS_DIR_def)
  obtain r w1 where loop: "cleanup_loop env (time_now env) (os_listdir STUDENTS_DIR w) w = (r, w1)"
    by (cases "cleanup_loop env (time_now env) (os_listdir STUDENTS_DIR w) w")
  have "file_at (cleanup_old_files env w) p = file_at w1 p"
    using loop by (cases r) (simp_all add: cleanup_old_files_def logger_def file_at_def)
  with cleanup_loop_frame [of env "time_now env" "os_listdir STUDENTS_DIR w" w p] loop join
  show ?thesis
    by (auto simp: MAX_FILE_AGE_DAYS_def)
qed

text \<open>
  C8 fails for a reference whose own name begins with \<^verbatim>\<open>temp_\<close>. The address
  \<^verbatim>\<open>temp_bob@x.org\<close> registers at time 1000 and gets the reference
  \<^verbatim>\<open>students/temp_bob_at_x_org.jpg\<close>; a visit of the home page thirty days and a second
  later removes that reference.
\<close>

theorem cleanup_removes_registered_reference:
  "fst (submit demo_env temp_bob_req empty_world) = Inr (Redirect Dashboard) \<and>
   registered_path (sanitize_email (req_email temp_bob_req)) =
     ''students/temp_bob_at_x_org.jpg'' \<and>
   files (snd (submit demo_env temp_bob_req empty_world)) =
     [(''students/temp_bob_at_x_org.jpg'', \<lparr>contents = [65, 66, 67], mtime = 1000\<rparr>)] \<and>
   time_now month_later_env = 1000 + 30 * 86400 + 1 \<and>
   files (snd (home month_later_env (snd (submit demo_env temp_bob_req empty_world)))) = []"
proof -
  define wr where "wr = snd (submit demo_env temp_bob_req empty_world)"
  have reg: "files wr =
     [(''students/temp_bob_at_x_org.jpg'', \<lparr>contents = [65, 66, 67], mtime = 1000\<rparr>)]"
    unfolding wr_def by (simp add: string_defs world_defs app_defs demo_defs)
  have ok: "fst (submit demo_env temp_bob_req empty_world) = Inr (Redirect Dashboard)"
    by (simp add: string_defs world_defs app_defs demo_defs)
  have path: "registered_path (sanitize_email (req_email temp_bob_req)) =
                ''students/temp_bob_at_x_org.jpg''"
    by (simp add: string_defs demo_defs)
  have now: "time_now month_later_env = 1000 + 30 * 86400 + 1"
    by (simp add: month_later_env_def demo_env_def)
  have deny: "\<not> remove_denied month_later_env ''students/temp_bob_at_x_org.jpg''"
    by (simp add: month_later_env_def demo_env_def)
  have "files (snd (home month_later_env wr)) = []"
    by (simp add: home_def cleanup_old_files_def os_listdir_def reg directly_in_def
          STUDENTS_DIR_def startswith_def os_path_join_def os_path_getmtime_def file_at_def
          MAX_FILE_AGE_DAYS_def now deny os_remove_def os_path_exists_def emit_def logger_def)
  with reg ok path now show ?thesis
    unfolding wr_def by simp
qed

end
